theory Spec2Isabelle
  imports Main
begin

section \<open>The sequential model of Freya: values, exceptions, collaborators\<close>

text \<open>
  The class \<open>Model\<close> of \<open>freya/model/__init__.py\<close> holds a list of layer objects and a
  list of recorded losses, and drives layers and loss units that live in other modules
  (\<open>freya.layers\<close>, \<open>freya.loss\<close>). Those collaborators are parameters of the embedding:
  a layer is a reference of type \<open>'r\<close>, a loss unit a reference of type \<open>'o\<close>, a Python
  value (array, float, tuple) an element of \<open>'v\<close>, and everything the collaborators own
  (weights, biases, cached inputs) is the heap \<open>'w\<close>. A method of a collaborator reads and
  writes the heap and either returns a value or raises an exception \<open>'x\<close>.
\<close>

datatype 'x exn =
    ValueError string
  | UnboundLocalError string
  | IndexError
  | UnpackError
  | Raised 'x

text \<open>
  The calls the model makes on its collaborators, with their arguments. The number is the
  index \<open>i\<close> of \<open>self.layers[i]\<close>.
\<close>

datatype 'v call =
    Forward nat 'v
  | NewLoss string 'v 'v
  | LossForward
  | LossBackward
  | Backward nat 'v
  | Optimize nat 'v 'v 'v

record ('r, 'o, 'v, 'w, 'x) iface =
  layer_type :: "'r \<Rightarrow> string"
  layer_forward :: "'r \<Rightarrow> 'v \<Rightarrow> 'w \<Rightarrow> ('x + 'v) \<times> 'w"
  layer_backward :: "'r \<Rightarrow> 'v \<Rightarrow> 'w \<Rightarrow> ('x + 'v) \<times> 'w"
  layer_optimize :: "'r \<Rightarrow> 'v \<Rightarrow> 'v \<Rightarrow> 'v \<Rightarrow> 'w \<Rightarrow> ('x + unit) \<times> 'w"
  unpack3 :: "'v \<Rightarrow> ('v \<times> 'v \<times> 'v) option"
  BinaryCrossEntropy :: "'v \<Rightarrow> 'v \<Rightarrow> 'w \<Rightarrow> ('x + 'o) \<times> 'w"
  MeanSquaredError :: "'v \<Rightarrow> 'v \<Rightarrow> 'w \<Rightarrow> ('x + 'o) \<times> 'w"
  loss_forward :: "'o \<Rightarrow> 'w \<Rightarrow> ('x + 'v) \<times> 'w"
  loss_backward :: "'o \<Rightarrow> 'w \<Rightarrow> ('x + 'v) \<times> 'w"

text \<open>
  \<open>layer_type\<close> is the attribute \<open>.type\<close> of a layer, a string fixed when the layer
  is built and read without effect; \<open>unpack3\<close> is Python's unpacking of a value into
  exactly three targets (\<open>None\<close> where it raises). \<open>layer_forward\<close> stands for the
  method \<open>forward\<close>, which \<open>predict\<close> calls with a positional argument and \<open>_run_epoch\<close>
  with the keyword \<open>input_val\<close>.

  The state: the two attributes of \<open>Model\<close> (\<open>self.layers\<close>, \<open>self.loss\<close>), the heap of
  the collaborators, what \<open>print\<close> has written (one pair of epoch and loss per line), and
  the log of the calls made on collaborators, in program order. The log is not a field
  of the source: it is what instrumented layers would record.
\<close>

record ('r, 'v, 'w) state =
  layers :: "'r list"
  loss :: "'v list"
  heap :: 'w
  stdout :: "(int \<times> 'v) list"
  calls :: "'v call list"

text \<open>\<open>__init__\<close>: both lists start empty.\<close>

definition init :: "'w \<Rightarrow> ('r, 'v, 'w) state" where
  "init h = \<lparr>layers = [], loss = [], heap = h, stdout = [], calls = []\<rparr>"

text \<open>\<open>add\<close>: \<open>self.layers.append(layer)\<close>.\<close>

definition add :: "'r \<Rightarrow> ('r, 'v, 'w) state \<Rightarrow> ('r, 'v, 'w) state" where
  "add layer s = s\<lparr>layers := layers s @ [layer]\<rparr>"

text \<open>
  A call on a collaborator: it is logged, runs on the heap, and an exception it raises
  propagates. The state it leaves is kept in both cases.
\<close>

definition ext ::
  "'v call \<Rightarrow> ('w \<Rightarrow> ('x + 'a) \<times> 'w) \<Rightarrow> ('r, 'v, 'w) state
    \<Rightarrow> ('x exn + 'a) \<times> ('r, 'v, 'w) state" where
  "ext c f s =
     (case f (heap s) of
        (Inl x, h) \<Rightarrow> (Inl (Raised x), s\<lparr>heap := h, calls := calls s @ [c]\<rparr>)
      | (Inr a, h) \<Rightarrow> (Inr a, s\<lparr>heap := h, calls := calls s @ [c]\<rparr>))"

text \<open>\<open>self.layers[i]\<close>, which raises \<open>IndexError\<close> out of range.\<close>

definition get_layer :: "('r, 'v, 'w) state \<Rightarrow> nat \<Rightarrow> 'x exn + 'r" where
  "get_layer s i = (if i < length (layers s) then Inr (layers s ! i) else Inl IndexError)"

section \<open>predict\<close>

text \<open>
  The loop \<open>for i, _ in enumerate(self.layers): forward = self.layers[i].forward(X); X = forward\<close>
  over the remaining pairs of the enumeration. The local \<open>forward\<close> is \<open>None\<close> until its
  first assignment; the loop returns it.
\<close>

fun forward_loop ::
  "('r, 'o, 'v, 'w, 'x) iface \<Rightarrow> (nat \<times> 'r) list \<Rightarrow> 'v \<Rightarrow> 'v option
    \<Rightarrow> ('r, 'v, 'w) state \<Rightarrow> ('x exn + 'v option) \<times> ('r, 'v, 'w) state" where
  "forward_loop E [] X forward s = (Inr forward, s)"
| "forward_loop E ((i, _) # rest) X forward s =
     (case get_layer s i of
        Inl e \<Rightarrow> (Inl e, s)
      | Inr l \<Rightarrow>
          (case ext (Forward i X) (layer_forward E l X) s of
             (Inl e, s1) \<Rightarrow> (Inl e, s1)
           | (Inr out, s1) \<Rightarrow> forward_loop E rest out (Some out) s1))"

text \<open>The forward pass: the loop over the whole enumeration, \<open>forward\<close> not yet bound.\<close>

definition forward_pass ::
  "('r, 'o, 'v, 'w, 'x) iface \<Rightarrow> 'v \<Rightarrow> ('r, 'v, 'w) state
    \<Rightarrow> ('x exn + 'v option) \<times> ('r, 'v, 'w) state" where
  "forward_pass E X s = forward_loop E (enumerate 0 (layers s)) X None s"

text \<open>\<open>return forward\<close>: reading the local before any assignment raises.\<close>

definition predict ::
  "('r, 'o, 'v, 'w, 'x) iface \<Rightarrow> 'v \<Rightarrow> ('r, 'v, 'w) state
    \<Rightarrow> ('x exn + 'v) \<times> ('r, 'v, 'w) state" where
  "predict E X s =
     (case forward_pass E X s of
        (Inl e, s1) \<Rightarrow> (Inl e, s1)
      | (Inr None, s1) \<Rightarrow> (Inl (UnboundLocalError ''forward''), s1)
      | (Inr (Some forward), s1) \<Rightarrow> (Inr forward, s1))"

section \<open>The epoch routine\<close>

text \<open>
  Lines 126 to 131: the selector is compared with the two names in turn. The constructor
  call reads the local \<open>forward\<close>; the \<open>else\<close> branch does not.
\<close>

definition loss_dispatch ::
  "('r, 'o, 'v, 'w, 'x) iface \<Rightarrow> 'v option \<Rightarrow> 'v \<Rightarrow> string \<Rightarrow> ('r, 'v, 'w) state
    \<Rightarrow> ('x exn + 'o) \<times> ('r, 'v, 'w) state" where
  "loss_dispatch E forward Y loss_function s =
     (if loss_function = ''BinaryCrossEntropy'' then
        (case forward of
           None \<Rightarrow> (Inl (UnboundLocalError ''forward''), s)
         | Some out \<Rightarrow> ext (NewLoss ''BinaryCrossEntropy'' out Y) (BinaryCrossEntropy E out Y) s)
      else if loss_function = ''MeanSquaredError'' then
        (case forward of
           None \<Rightarrow> (Inl (UnboundLocalError ''forward''), s)
         | Some out \<Rightarrow> ext (NewLoss ''MeanSquaredError'' out Y) (MeanSquaredError E out Y) s)
      else (Inl (ValueError (loss_function @ '' is not supported.'')), s))"

text \<open>
  The backpropagation loop \<open>for i, _ in reversed(list(enumerate(self.layers)))\<close> over the
  remaining pairs. A layer whose type is not \<open>'Linear'\<close> hands back the next gradient; a
  \<open>'Linear'\<close> one hands back a value that is unpacked into three, and is optimized at once.
\<close>

fun backward_loop ::
  "('r, 'o, 'v, 'w, 'x) iface \<Rightarrow> 'v \<Rightarrow> (nat \<times> 'r) list \<Rightarrow> 'v
    \<Rightarrow> ('r, 'v, 'w) state \<Rightarrow> ('x exn + 'v) \<times> ('r, 'v, 'w) state" where
  "backward_loop E learning_rate [] gradient s = (Inr gradient, s)"
| "backward_loop E learning_rate ((i, _) # rest) gradient s =
     (case get_layer s i of
        Inl e \<Rightarrow> (Inl e, s)
      | Inr l \<Rightarrow>
          if layer_type E l \<noteq> ''Linear'' then
            (case ext (Backward i gradient) (layer_backward E l gradient) s of
               (Inl e, s1) \<Rightarrow> (Inl e, s1)
             | (Inr g, s1) \<Rightarrow> backward_loop E learning_rate rest g s1)
          else
            (case ext (Backward i gradient) (layer_backward E l gradient) s of
               (Inl e, s1) \<Rightarrow> (Inl e, s1)
             | (Inr res, s1) \<Rightarrow>
                 (case unpack3 E res of
                    None \<Rightarrow> (Inl UnpackError, s1)
                  | Some (g, dW, dB) \<Rightarrow>
                      (case get_layer s1 i of
                         Inl e \<Rightarrow> (Inl e, s1)
                       | Inr l' \<Rightarrow>
                           (case ext (Optimize i dW dB learning_rate)
                                   (layer_optimize E l' dW dB learning_rate) s1 of
                              (Inl e, s2) \<Rightarrow> (Inl e, s2)
                            | (Inr _, s2) \<Rightarrow> backward_loop E learning_rate rest g s2)))))"

text \<open>The backward pass: the loop over the whole reversed enumeration.\<close>

definition backward_pass ::
  "('r, 'o, 'v, 'w, 'x) iface \<Rightarrow> 'v \<Rightarrow> 'v \<Rightarrow> ('r, 'v, 'w) state
    \<Rightarrow> ('x exn + 'v) \<times> ('r, 'v, 'w) state" where
  "backward_pass E learning_rate gradient s =
     backward_loop E learning_rate (rev (enumerate 0 (layers s))) gradient s"

text \<open>\<open>_run_epoch\<close>, lines 120 to 146.\<close>

definition run_epoch ::
  "('r, 'o, 'v, 'w, 'x) iface \<Rightarrow> 'v \<Rightarrow> 'v \<Rightarrow> 'v \<Rightarrow> string \<Rightarrow> ('r, 'v, 'w) state
    \<Rightarrow> ('x exn + 'v) \<times> ('r, 'v, 'w) state" where
  "run_epoch E X Y learning_rate loss_function s =
     (case forward_pass E X s of
        (Inl e, s1) \<Rightarrow> (Inl e, s1)
      | (Inr forward, s1) \<Rightarrow>
          (case loss_dispatch E forward Y loss_function s1 of
             (Inl e, s2) \<Rightarrow> (Inl e, s2)
           | (Inr loss_f, s2) \<Rightarrow>
               (case ext LossForward (loss_forward E loss_f) s2 of
                  (Inl e, s3) \<Rightarrow> (Inl e, s3)
                | (Inr error, s3) \<Rightarrow>
                    (case ext LossBackward (loss_backward E loss_f) s3 of
                       (Inl e, s4) \<Rightarrow> (Inl e, s4)
                     | (Inr gradient, s4) \<Rightarrow>
                         (let s5 = s4\<lparr>loss := loss s4 @ [error]\<rparr> in
                          case backward_pass E learning_rate gradient s5 of
                            (Inl e, s6) \<Rightarrow> (Inl e, s6)
                          | (Inr _, s6) \<Rightarrow> (Inr error, s6))))))"

section \<open>train\<close>

text \<open>
  The loop \<open>for epoch in range(epochs)\<close> over the remaining epoch indices; a line is
  printed when \<open>verbose\<close> holds and \<open>epoch % 50 == 0\<close>.
\<close>

fun train_loop ::
  "('r, 'o, 'v, 'w, 'x) iface \<Rightarrow> 'v \<Rightarrow> 'v \<Rightarrow> 'v \<Rightarrow> int list \<Rightarrow> string \<Rightarrow> bool
    \<Rightarrow> ('r, 'v, 'w) state \<Rightarrow> ('x exn + unit) \<times> ('r, 'v, 'w) state" where
  "train_loop E X_train Y_train learning_rate [] loss_function verbose s = (Inr (), s)"
| "train_loop E X_train Y_train learning_rate (epoch # rest) loss_function verbose s =
     (case run_epoch E X_train Y_train learning_rate loss_function s of
        (Inl e, s1) \<Rightarrow> (Inl e, s1)
      | (Inr l, s1) \<Rightarrow>
          train_loop E X_train Y_train learning_rate rest loss_function verbose
            (if verbose then
               (if epoch mod 50 = 0 then s1\<lparr>stdout := stdout s1 @ [(epoch, l)]\<rparr> else s1)
             else s1))"

text \<open>\<open>range(epochs)\<close> is \<open>0, ..., epochs - 1\<close>, empty when \<open>epochs \<le> 0\<close>.\<close>

definition train ::
  "('r, 'o, 'v, 'w, 'x) iface \<Rightarrow> 'v \<Rightarrow> 'v \<Rightarrow> 'v \<Rightarrow> int \<Rightarrow> string \<Rightarrow> bool
    \<Rightarrow> ('r, 'v, 'w) state \<Rightarrow> ('x exn + unit) \<times> ('r, 'v, 'w) state" where
  "train E X_train Y_train learning_rate epochs loss_function verbose s =
     train_loop E X_train Y_train learning_rate [0..epochs - 1] loss_function verbose s"

section \<open>What the specification says, written down\<close>

text \<open>
  The composition \<open>Ln.forward(...(L1.forward(X))...)\<close> of the specification: the layers
  in insertion order, each fed the output of the one before, on the collaborators' heap.
\<close>

fun compose_forward ::
  "('r, 'o, 'v, 'w, 'x) iface \<Rightarrow> 'r list \<Rightarrow> 'v \<Rightarrow> 'w \<Rightarrow> ('x + 'v) \<times> 'w" where
  "compose_forward E [] X h = (Inr X, h)"
| "compose_forward E (L # Ls) X h =
     (case layer_forward E L X h of
        (Inl x, h1) \<Rightarrow> (Inl x, h1)
      | (Inr out, h1) \<Rightarrow> compose_forward E Ls out h1)"



text \<open>A call with its arguments left out.\<close>

definition shape :: "'v call \<Rightarrow> unit call" where
  "shape c = map_call (\<lambda>_. ()) c"

text \<open>The indices of the layers optimized, and of those sent a gradient, in a log.\<close>

fun optimized :: "'v call list \<Rightarrow> nat list" where
  "optimized [] = []"
| "optimized (Optimize i _ _ _ # cs) = i # optimized cs"
| "optimized (_ # cs) = optimized cs"

fun backwarded :: "'v call list \<Rightarrow> nat list" where
  "backwarded [] = []"
| "backwarded (Backward i _ # cs) = i # backwarded cs"
| "backwarded (_ # cs) = backwarded cs"

text \<open>
  Determinism of the epoch routine is stated on pairs of runs. Two states agree when they
  hold the same layers and the same heap of the collaborators (the same parameters);
  they may differ in everything recorded so far. A run from \<open>s\<close> to \<open>s'\<close> and a run from
  \<open>t\<close> to \<open>t'\<close> have the same effects when the states reached agree and both runs
  appended the same calls (with the same arguments), the same losses and the same lines.
\<close>

definition agree :: "('r, 'v, 'w) state \<Rightarrow> ('r, 'v, 'w) state \<Rightarrow> bool" where
  "agree s t \<longleftrightarrow> layers s = layers t \<and> heap s = heap t"

definition same_effects ::
  "('r, 'v, 'w) state \<Rightarrow> ('r, 'v, 'w) state \<Rightarrow> ('r, 'v, 'w) state \<Rightarrow> ('r, 'v, 'w) state
    \<Rightarrow> bool" where
  "same_effects s s' t t' \<longleftrightarrow>
     agree s' t' \<and>
     (\<exists>cs. calls s' = calls s @ cs \<and> calls t' = calls t @ cs) \<and>
     (\<exists>es. loss s' = loss s @ es \<and> loss t' = loss t @ es) \<and>
     (\<exists>ps. stdout s' = stdout s @ ps \<and> stdout t' = stdout t @ ps)"

section \<open>A small instance of the interface\<close>

text \<open>
  Scalar stand-ins for the collaborators, to run the model on concrete inputs. A value is
  a number or a triple. \<open>MLinear k\<close> is a layer of type \<open>'Linear'\<close> computing \<open>w * x\<close>
  with its weight \<open>w\<close> and its cached input in slot \<open>k\<close> of the heap; \<open>MNeg\<close> is a layer of
  type \<open>'Neg'\<close> without parameters computing \<open>- x\<close>. The two loss units are the squared
  and the absolute difference.
\<close>

datatype pyval = Num int | Tuple3 pyval pyval pyval

datatype mock_layer = MLinear nat | MNeg

datatype mock_loss = MSE int int | BCE int int

fun mock_type :: "mock_layer \<Rightarrow> string" where
  "mock_type (MLinear k) = ''Linear''"
| "mock_type MNeg = ''Neg''"

fun mock_forward ::
  "mock_layer \<Rightarrow> pyval \<Rightarrow> (int \<times> int) list \<Rightarrow> (string + pyval) \<times> (int \<times> int) list" where
  "mock_forward (MLinear k) (Num x) h =
     (if k < length h then (Inr (Num (fst (h ! k) * x)), h[k := (fst (h ! k), x)])
      else (Inl ''no parameters'', h))"
| "mock_forward MNeg (Num x) h = (Inr (Num (- x)), h)"
| "mock_forward l (Tuple3 a b c) h = (Inl ''TypeError'', h)"

fun mock_backward ::
  "mock_layer \<Rightarrow> pyval \<Rightarrow> (int \<times> int) list \<Rightarrow> (string + pyval) \<times> (int \<times> int) list" where
  "mock_backward (MLinear k) (Num g) h =
     (if k < length h
      then (Inr (Tuple3 (Num (g * fst (h ! k))) (Num (g * snd (h ! k))) (Num g)), h)
      else (Inl ''no parameters'', h))"
| "mock_backward MNeg (Num g) h = (Inr (Num (- g)), h)"
| "mock_backward l (Tuple3 a b c) h = (Inl ''TypeError'', h)"

fun mock_optimize ::
  "mock_layer \<Rightarrow> pyval \<Rightarrow> pyval \<Rightarrow> pyval \<Rightarrow> (int \<times> int) list
    \<Rightarrow> (string + unit) \<times> (int \<times> int) list" where
  "mock_optimize (MLinear k) (Num dW) (Num dB) (Num lr) h =
     (if k < length h then (Inr (), h[k := (fst (h ! k) - lr * dW, snd (h ! k))])
      else (Inl ''no parameters'', h))"
| "mock_optimize l dW dB lr h = (Inl ''AttributeError'', h)"

fun mock_unpack3 :: "pyval \<Rightarrow> (pyval \<times> pyval \<times> pyval) option" where
  "mock_unpack3 (Tuple3 a b c) = Some (a, b, c)"
| "mock_unpack3 (Num x) = None"

fun mock_mse :: "pyval \<Rightarrow> pyval \<Rightarrow> (int \<times> int) list \<Rightarrow> (string + mock_loss) \<times> (int \<times> int) list" where
  "mock_mse (Num p) (Num y) h = (Inr (MSE p y), h)"
| "mock_mse p y h = (Inl ''TypeError'', h)"

fun mock_bce :: "pyval \<Rightarrow> pyval \<Rightarrow> (int \<times> int) list \<Rightarrow> (string + mock_loss) \<times> (int \<times> int) list" where
  "mock_bce (Num p) (Num y) h = (Inr (BCE p y), h)"
| "mock_bce p y h = (Inl ''TypeError'', h)"

fun mock_loss_forward ::
  "mock_loss \<Rightarrow> (int \<times> int) list \<Rightarrow> (string + pyval) \<times> (int \<times> int) list" where
  "mock_loss_forward (MSE p y) h = (Inr (Num ((p - y) * (p - y))), h)"
| "mock_loss_forward (BCE p y) h = (Inr (Num (abs (p - y))), h)"

fun mock_loss_backward ::
  "mock_loss \<Rightarrow> (int \<times> int) list \<Rightarrow> (string + pyval) \<times> (int \<times> int) list" where
  "mock_loss_backward (MSE p y) h = (Inr (Num (2 * (p - y))), h)"
| "mock_loss_backward (BCE p y) h = (Inr (Num (sgn (p - y))), h)"

definition mock :: "(mock_layer, mock_loss, pyval, (int \<times> int) list, string) iface" where
  "mock = \<lparr>layer_type = mock_type, layer_forward = mock_forward,
           layer_backward = mock_backward, layer_optimize = mock_optimize,
           unpack3 = mock_unpack3, BinaryCrossEntropy = mock_bce,
           MeanSquaredError = mock_mse, loss_forward = mock_loss_forward,
           loss_backward = mock_loss_backward\<rparr>"

text \<open>
  The model \<open>[Linear, Neg, Linear]\<close> with weights \<open>2\<close> and \<open>3\<close>, built with \<open>add\<close>, and the
  model with the single layer \<open>Neg\<close>.
\<close>

definition mock_model :: "(mock_layer, pyval, (int \<times> int) list) state" where
  "mock_model = add (MLinear 1) (add MNeg (add (MLinear 0) (init [(2, 0), (3, 0)])))"

definition neg_model :: "(mock_layer, pyval, (int \<times> int) list) state" where
  "neg_model = add MNeg (init [])"

section \<open>Frame and failure lemmas\<close>

lemma ext_frame:
  "ext c f s = (r, s') \<Longrightarrow>
     layers s' = layers s \<and> loss s' = loss s \<and> stdout s' = stdout s \<and> calls s' = calls s @ [c]"
  by (auto simp: ext_def split: prod.splits sum.splits)

lemma ext_raises:
  "ext c f s = (Inl e, s') \<Longrightarrow> \<exists>x. e = Raised x"
  by (auto simp: ext_def split: prod.splits sum.splits)

lemma forward_loop_bound:
  "forward_loop E ps X fwd s = (Inr r, s') \<Longrightarrow> ps \<noteq> [] \<or> fwd \<noteq> None \<Longrightarrow> r \<noteq> None"
proof (induction ps arbitrary: X fwd s)
  case Nil
  then show ?case by simp
next
  case (Cons p ps)
  obtain i l where p: "p = (i, l)" by (cases p)
  from Cons.prems(1) show ?case
    unfolding p
    by (auto split: sum.splits prod.splits dest: Cons.IH)
qed

lemma forward_loop_raises:
  "forward_loop E ps X fwd s = (Inl e, s') \<Longrightarrow> e = IndexError \<or> (\<exists>x. e = Raised x)"
proof (induction ps arbitrary: X fwd s)
  case Nil
  then show ?case by simp
next
  case (Cons p ps)
  obtain i l where p: "p = (i, l)" by (cases p)
  from Cons.prems show ?case
    unfolding p
    by (auto simp: get_layer_def split: sum.splits prod.splits if_splits
             dest: Cons.IH ext_raises)
qed

text \<open>
  C10: \<open>train\<close> called with \<open>epochs \<le> 0\<close> runs no epoch and returns normally with
  the state it was given: no layer is touched, nothing is appended to the loss history,
  nothing is printed and nothing is raised, whatever the loss selector is.
\<close>

theorem train_no_epochs:
  "epochs \<le> 0 \<Longrightarrow> train E X_train Y_train learning_rate epochs loss_function verbose s = (Inr (), s)"
  by (simp add: train_def)

theorem train_no_epochs_witness:
  "(0::int) \<le> 0 \<and> (-3::int) \<le> 0 \<and>
   train mock (Num 1) (Num 1) (Num 1) 0 ''Hinge'' True mock_model = (Inr (), mock_model) \<and>
   train mock (Num 1) (Num 1) (Num 1) (-3) ''Hinge'' True mock_model = (Inr (), mock_model)"
  using train_no_epochs [of 0 mock "Num 1" "Num 1" "Num 1" "''Hinge''" True mock_model]
        train_no_epochs [of "-3" mock "Num 1" "Num 1" "Num 1" "''Hinge''" True mock_model]
  by simp

text \<open>
  C8: on a model without layers \<open>predict\<close> fails for every input: the loop never binds
  \<open>forward\<close>, and the \<open>return\<close> reads an unbound local. On a model with at least one
  layer that failure cannot happen.
\<close>

theorem predict_empty_model:
  "(layers s = [] \<longrightarrow> predict E X s = (Inl (UnboundLocalError ''forward''), s)) \<and>
   (layers s \<noteq> [] \<longrightarrow> (\<forall>m. fst (predict E X s) \<noteq> Inl (UnboundLocalError m)))"
proof (intro conjI impI allI)
  assume "layers s = []"
  then show "predict E X s = (Inl (UnboundLocalError ''forward''), s)"
    by (simp add: predict_def forward_pass_def enumerate_eq_zip)
next
  fix m
  assume ne: "layers s \<noteq> []"
  then have ps: "enumerate 0 (layers s) \<noteq> []"
    by (cases "layers s") simp_all
  obtain r s1 where run: "forward_loop E (enumerate 0 (layers s)) X None s = (r, s1)"
    by (cases "forward_loop E (enumerate 0 (layers s)) X None s")
  show "fst (predict E X s) \<noteq> Inl (UnboundLocalError m)"
  proof (cases r)
    case (Inl e)
    with run have "e \<noteq> UnboundLocalError m" by (auto dest: forward_loop_raises)
    with Inl run show ?thesis by (simp add: predict_def forward_pass_def)
  next
    case (Inr v)
    with run ps have "v \<noteq> None" by (auto dest: forward_loop_bound)
    with Inr run show ?thesis by (auto simp: predict_def forward_pass_def)
  qed
qed

theorem predict_empty_model_witness:
  "predict mock (Num 5) (init [(2, 0)]) = (Inl (UnboundLocalError ''forward''), init [(2, 0)]) \<and>
   fst (predict mock (Num 5) neg_model) \<noteq> Inl (UnboundLocalError ''forward'') \<and>
   predict mock (Num 5) neg_model = (Inr (Num (- 5)), neg_model\<lparr>calls := [Forward 0 (Num 5)]\<rparr>)"
proof -
  have e: "layers (init [(2::int, 0::int)] :: (mock_layer, pyval, (int \<times> int) list) state) = []"
    by (simp add: init_def)
  have n: "layers neg_model \<noteq> []"
    by (simp add: neg_model_def add_def init_def)
  have v: "predict mock (Num 5) neg_model = (Inr (Num (- 5)), neg_model\<lparr>calls := [Forward 0 (Num 5)]\<rparr>)"
    by (simp add: predict_def forward_pass_def neg_model_def add_def init_def enumerate_eq_zip
        get_layer_def ext_def mock_def)
  from predict_empty_model [of "init [(2, 0)]" mock "Num 5"] e
       predict_empty_model [of neg_model mock "Num 5"] n v
  show ?thesis by simp
qed

section \<open>Loss dispatch\<close>


lemma dispatch_bce:
  "loss_dispatch E (Some out) Y ''BinaryCrossEntropy'' s
      = ext (NewLoss ''BinaryCrossEntropy'' out Y) (BinaryCrossEntropy E out Y) s"
  by (simp add: loss_dispatch_def)

lemma dispatch_mse:
  "loss_dispatch E (Some out) Y ''MeanSquaredError'' s
      = ext (NewLoss ''MeanSquaredError'' out Y) (MeanSquaredError E out Y) s"
  by (simp add: loss_dispatch_def)

lemma dispatch_unbound:
  "loss_function = ''BinaryCrossEntropy'' \<or> loss_function = ''MeanSquaredError'' \<Longrightarrow>
   loss_dispatch E None Y loss_function s = (Inl (UnboundLocalError ''forward''), s)"
  by (erule disjE) (simp_all add: loss_dispatch_def)

lemma dispatch_other:
  "loss_function \<noteq> ''BinaryCrossEntropy'' \<Longrightarrow> loss_function \<noteq> ''MeanSquaredError'' \<Longrightarrow>
   loss_dispatch E forward Y loss_function s
     = (Inl (ValueError (loss_function @ '' is not supported.'')), s)"
  by (simp add: loss_dispatch_def)




lemma mock_fields:
  "layer_type mock = mock_type" "layer_forward mock = mock_forward"
  "layer_backward mock = mock_backward" "layer_optimize mock = mock_optimize"
  "unpack3 mock = mock_unpack3" "BinaryCrossEntropy mock = mock_bce"
  "MeanSquaredError mock = mock_mse" "loss_forward mock = mock_loss_forward"
  "loss_backward mock = mock_loss_backward"
  by (simp_all add: mock_def)


section \<open>The forward pass\<close>

lemma get_layer_nth:
  "layers s = pre @ a # xs \<Longrightarrow> get_layer s (length pre) = Inr a"
  by (simp add: get_layer_def)

lemma forward_loop_frame:
  "forward_loop E ps X fwd s = (r, s') \<Longrightarrow>
     layers s' = layers s \<and> loss s' = loss s \<and> stdout s' = stdout s"
proof (induction ps arbitrary: X fwd s)
  case Nil
  then show ?case by simp
next
  case (Cons p ps)
  obtain i l where p: "p = (i, l)" by (cases p)
  from Cons.prems show ?case
    unfolding p
    by (auto split: sum.splits prod.splits dest!: Cons.IH ext_frame)
qed

lemma compose_last_some:
  "(case fst (compose_forward E xs out h) of
      Inl x \<Rightarrow> Inl (Raised x)
    | Inr y \<Rightarrow> Inr (if xs = [] then Some out else Some y))
   = (case fst (compose_forward E xs out h) of
        Inl x \<Rightarrow> Inl (Raised x)
      | Inr y \<Rightarrow> Inr (Some y))"
  by (cases xs) (simp_all split: sum.splits)

lemma forward_loop_compose:
  "layers s = pre @ xs \<Longrightarrow>
   fst (forward_loop E (enumerate (length pre) xs) X fwd s)
     = (case fst (compose_forward E xs X (heap s)) of
          Inl x \<Rightarrow> Inl (Raised x)
        | Inr y \<Rightarrow> Inr (if xs = [] then fwd else Some y)) \<and>
   heap (snd (forward_loop E (enumerate (length pre) xs) X fwd s))
     = snd (compose_forward E xs X (heap s))"
proof (induction xs arbitrary: pre X fwd s)
  case Nil
  then show ?case by simp
next
  case (Cons a xs)
  note g = get_layer_nth [OF Cons.prems]
  obtain r h where f: "layer_forward E a X (heap s) = (r, h)"
    by (cases "layer_forward E a X (heap s)")
  show ?case
  proof (cases r)
    case (Inl x)
    with f show ?thesis by (simp add: ext_def g)
  next
    case (Inr out)
    let ?s1 = "s\<lparr>heap := h, calls := calls s @ [Forward (length pre) X]\<rparr>"
    have l: "layers ?s1 = (pre @ [a]) @ xs"
      using Cons.prems by simp
    from Cons.IH [OF l, of out "Some out"]
    have ih: "fst (forward_loop E (enumerate (Suc (length pre)) xs) out (Some out) ?s1)
        = (case fst (compose_forward E xs out h) of
             Inl x \<Rightarrow> Inl (Raised x)
           | Inr y \<Rightarrow> Inr (if xs = [] then Some out else Some y))"
      "heap (snd (forward_loop E (enumerate (Suc (length pre)) xs) out (Some out) ?s1))
        = snd (compose_forward E xs out h)"
      by simp_all
    have e: "ext (Forward (length pre) X) (layer_forward E a X) s = (Inr out, ?s1)"
      using f Inr by (simp add: ext_def)
    have c: "compose_forward E (a # xs) X (heap s) = compose_forward E xs out h"
      using f Inr by simp
    show ?thesis
      using e ih f Inr by (simp add: compose_last_some g split: sum.splits)
  qed
qed

text \<open>
  C2: on a model with at least one layer, \<open>predict(X)\<close> is the composition
  \<open>Ln.forward(...(L1.forward(X))...)\<close> of the layers in insertion order: it returns
  what the composition returns (an exception of a layer propagates), leaves the
  collaborators in the state the composition leaves them in, and changes neither the
  layer list nor the loss history.
\<close>

theorem predict_composition:
  assumes "layers s \<noteq> []"
  shows "fst (predict E X s)
           = (case fst (compose_forward E (layers s) X (heap s)) of
                Inl x \<Rightarrow> Inl (Raised x)
              | Inr y \<Rightarrow> Inr y) \<and>
         heap (snd (predict E X s)) = snd (compose_forward E (layers s) X (heap s)) \<and>
         layers (snd (predict E X s)) = layers s \<and>
         loss (snd (predict E X s)) = loss s"
proof -
  obtain r s1 where run: "forward_pass E X s = (r, s1)"
    by (cases "forward_pass E X s")
  have l: "layers s = [] @ layers s" by simp
  from forward_loop_compose [OF l, of E X None] assms run
  have c: "r = (case fst (compose_forward E (layers s) X (heap s)) of
                  Inl x \<Rightarrow> Inl (Raised x)
                | Inr y \<Rightarrow> Inr (Some y))"
    "heap s1 = snd (compose_forward E (layers s) X (heap s))"
    by (simp_all add: forward_pass_def split: sum.splits)
  from run have fr: "layers s1 = layers s" "loss s1 = loss s"
    by (auto simp: forward_pass_def dest: forward_loop_frame)
  have p: "snd (predict E X s) = s1"
    using run by (simp add: predict_def split: sum.splits option.splits)
  have q: "fst (predict E X s)
           = (case fst (compose_forward E (layers s) X (heap s)) of
                Inl x \<Rightarrow> Inl (Raised x)
              | Inr y \<Rightarrow> Inr y)"
    using run c(1) by (simp add: predict_def split: sum.splits option.splits)
  from p q c(2) fr show ?thesis by simp
qed

lemmas mock_run =
  mock_fields mock_model_def neg_model_def add_def init_def enumerate_eq_zip
  get_layer_def ext_def forward_pass_def backward_pass_def

theorem predict_composition_witness:
  "layers mock_model \<noteq> [] \<and>
   compose_forward mock (layers mock_model) (Num 5) (heap mock_model)
     = (Inr (Num (- 30)), [(2, 5), (3, - 10)]) \<and>
   fst (predict mock (Num 5) mock_model) = Inr (Num (- 30)) \<and>
   heap (snd (predict mock (Num 5) mock_model)) = [(2, 5), (3, - 10)]"
proof -
  have n: "layers mock_model \<noteq> []"
    by (simp add: mock_run)
  have c: "compose_forward mock (layers mock_model) (Num 5) (heap mock_model)
     = (Inr (Num (- 30)), [(2, 5), (3, - 10)])"
    by (simp add: mock_run)
  from predict_composition [OF n, of mock "Num 5"] n c show ?thesis
    by simp
qed

section \<open>The backward pass\<close>


lemma ext_layers: "layers (snd (ext c f s)) = layers s"
  by (simp add: ext_def split: prod.splits sum.splits)

lemma get_layer_ext:
  "ext c f s = (r, s1) \<Longrightarrow> get_layer s1 i = get_layer s i"
  by (auto simp: get_layer_def dest: ext_frame)

lemma backward_loop_step:
  assumes "i < length (layers s)"
  shows "backward_loop E learning_rate ((i, x) # rest) gradient s =
    (case ext (Backward i gradient) (layer_backward E (layers s ! i) gradient) s of
       (Inl e, s1) \<Rightarrow> (Inl e, s1)
     | (Inr res, s1) \<Rightarrow>
         if layer_type E (layers s ! i) = ''Linear'' then
           (case unpack3 E res of
              None \<Rightarrow> (Inl UnpackError, s1)
            | Some (g, weight_grad, bias_grad) \<Rightarrow>
                (case ext (Optimize i weight_grad bias_grad learning_rate)
                        (layer_optimize E (layers s ! i) weight_grad bias_grad learning_rate) s1 of
                   (Inl e, s2) \<Rightarrow> (Inl e, s2)
                 | (Inr _, s2) \<Rightarrow> backward_loop E learning_rate rest g s2))
         else backward_loop E learning_rate rest res s1)"
proof -
  obtain r s1 where e: "ext (Backward i gradient) (layer_backward E (layers s ! i) gradient) s = (r, s1)"
    by (cases "ext (Backward i gradient) (layer_backward E (layers s ! i) gradient) s")
  then have l1: "layers s1 = layers s" by (auto dest: ext_frame)
  show ?thesis
    by (cases r) (simp_all add: get_layer_def assms e l1 split: option.splits)
qed




lemma shape_simps:
  "shape (Backward i g) = Backward i ()"
  "shape (Optimize i a b c) = Optimize i () () ()"
  "shape (Forward i g) = Forward i ()"
  by (simp_all add: shape_def)





section \<open>Logs\<close>







section \<open>Frames of the stages of an epoch\<close>

lemma forward_loop_calls:
  "layers s = pre @ xs \<Longrightarrow>
   forward_loop E (enumerate (length pre) xs) X fwd s = (r, s') \<Longrightarrow>
   \<exists>cs. calls s' = calls s @ cs \<and> length cs \<le> length xs \<and>
     map shape cs = map (\<lambda>i. Forward i ()) [length pre..<length pre + length cs] \<and>
     ((\<exists>v. r = Inr v) \<longrightarrow> length cs = length xs)"
proof (induction xs arbitrary: pre X fwd s)
  case Nil
  then show ?case by simp
next
  case (Cons a xs)
  note g = get_layer_nth [OF Cons.prems(1)]
  obtain b s1 where e: "ext (Forward (length pre) X) (layer_forward E a X) s = (b, s1)"
    by (cases "ext (Forward (length pre) X) (layer_forward E a X) s")
  then have l1: "layers s1 = (pre @ [a]) @ xs" and c1: "calls s1 = calls s @ [Forward (length pre) X]"
    using Cons.prems(1) by (auto dest: ext_frame)
  show ?case
  proof (cases b)
    case (Inl x)
    with Cons.prems(2) e have "r = Inl x" "s' = s1" by (simp_all add: g)
    with c1 have "calls s' = calls s @ [Forward (length pre) X] \<and>
       length [Forward (length pre) X] \<le> length (a # xs) \<and>
       map shape [Forward (length pre) X]
         = map (\<lambda>i. Forward i ()) [length pre..<length pre + length [Forward (length pre) X]] \<and>
       ((\<exists>v. r = Inr v) \<longrightarrow> length [Forward (length pre) X] = length (a # xs))"
      by (simp add: shape_simps)
    then show ?thesis by blast
  next
    case (Inr out)
    with Cons.prems(2) e
    have "forward_loop E (enumerate (length (pre @ [a])) xs) out (Some out) s1 = (r, s')"
      by (simp add: g)
    from Cons.IH [OF l1 this] obtain cs where cs:
      "calls s' = calls s1 @ cs" "length cs \<le> length xs"
      "map shape cs = map (\<lambda>i. Forward i ()) [Suc (length pre)..<Suc (length pre) + length cs]"
      "(\<exists>v. r = Inr v) \<longrightarrow> length cs = length xs"
      by auto
    have "[length pre..<length pre + length (Forward (length pre) X # cs)]
        = length pre # [Suc (length pre)..<Suc (length pre) + length cs]"
      using upt_conv_Cons [of "length pre" "length pre + Suc (length cs)"] by simp
    with cs c1 have "calls s' = calls s @ (Forward (length pre) X # cs) \<and>
       length (Forward (length pre) X # cs) \<le> length (a # xs) \<and>
       map shape (Forward (length pre) X # cs)
         = map (\<lambda>i. Forward i ())
             [length pre..<length pre + length (Forward (length pre) X # cs)] \<and>
       ((\<exists>v. r = Inr v) \<longrightarrow> length (Forward (length pre) X # cs) = length (a # xs))"
      by (simp add: shape_simps)
    then show ?thesis by blast
  qed
qed



lemma forward_pass_frame:
  assumes "forward_pass E X s = (r, s1)"
  shows "layers s1 = layers s" "loss s1 = loss s" "stdout s1 = stdout s"
    "heap s1 = snd (compose_forward E (layers s) X (heap s))"
    "\<exists>cs. calls s1 = calls s @ cs \<and> length cs \<le> length (layers s) \<and>
       map shape cs = map (\<lambda>i. Forward i ()) [0..<length cs] \<and>
       ((\<exists>v. r = Inr v) \<longrightarrow> length cs = length (layers s))"
proof -
  from assms have run: "forward_loop E (enumerate 0 (layers s)) X None s = (r, s1)"
    by (simp add: forward_pass_def)
  from forward_loop_frame [OF run]
  show "layers s1 = layers s" "loss s1 = loss s" "stdout s1 = stdout s"
    by simp_all
  have l: "layers s = [] @ layers s" by simp
  from forward_loop_compose [OF l, of E X None] run
  show "heap s1 = snd (compose_forward E (layers s) X (heap s))" by simp
  from forward_loop_calls [OF l, of E X None r s1] run
  show "\<exists>cs. calls s1 = calls s @ cs \<and> length cs \<le> length (layers s) \<and>
       map shape cs = map (\<lambda>i. Forward i ()) [0..<length cs] \<and>
       ((\<exists>v. r = Inr v) \<longrightarrow> length cs = length (layers s))"
    by simp
qed

lemma forward_pass_result:
  assumes "forward_pass E X s = (r, s1)"
  shows "(\<exists>x. r = Inl (Raised x)) \<or> (\<exists>out. r = Inr (Some out) \<and> layers s \<noteq> [])
        \<or> (r = Inr None \<and> layers s = [])"
proof -
  have l: "layers s = [] @ layers s" by simp
  from forward_loop_compose [OF l, of E X None] assms
  have "r = (case fst (compose_forward E (layers s) X (heap s)) of
          Inl x \<Rightarrow> Inl (Raised x)
        | Inr y \<Rightarrow> Inr (if layers s = [] then None else Some y))"
    by (simp add: forward_pass_def)
  then show ?thesis
    by (cases "fst (compose_forward E (layers s) X (heap s))") auto
qed

lemma loss_dispatch_frame:
  assumes "loss_dispatch E fwd Y loss_function s = (r, s1)"
  shows "layers s1 = layers s \<and> loss s1 = loss s \<and> stdout s1 = stdout s \<and>
    (\<exists>cs. calls s1 = calls s @ cs \<and> optimized cs = [] \<and> backwarded cs = [])"
proof -
  have n: "optimized [c :: 'b call] = [] \<and> backwarded [c] = []"
    if "c = NewLoss a b d" for c a b d
    using that by simp
  show ?thesis
  proof (cases "loss_function = ''BinaryCrossEntropy'' \<or> loss_function = ''MeanSquaredError''")
    case False
    with assms have "s1 = s" by (simp add: dispatch_other)
    then show ?thesis by simp
  next
    case True
    show ?thesis
    proof (cases fwd)
      case None
      with assms True have "s1 = s" by (simp add: dispatch_unbound)
      then show ?thesis by simp
    next
      case (Some out)
      from True show ?thesis
      proof
        assume "loss_function = ''BinaryCrossEntropy''"
        with assms Some
        have "ext (NewLoss ''BinaryCrossEntropy'' out Y) (BinaryCrossEntropy E out Y) s = (r, s1)"
          by (simp only: dispatch_bce)
        from ext_frame [OF this] show ?thesis by simp
      next
        assume "loss_function = ''MeanSquaredError''"
        with assms Some
        have "ext (NewLoss ''MeanSquaredError'' out Y) (MeanSquaredError E out Y) s = (r, s1)"
          by (simp only: dispatch_mse)
        from ext_frame [OF this] show ?thesis by simp
      qed
    qed
  qed
qed

lemma backward_loop_frame:
  "backward_loop E learning_rate ps gradient s = (r, s') \<Longrightarrow>
     layers s' = layers s \<and> loss s' = loss s \<and> stdout s' = stdout s"
proof (induction ps arbitrary: gradient s)
  case Nil
  then show ?case by simp
next
  case (Cons p ps)
  obtain i l where p: "p = (i, l)" by (cases p)
  from Cons.prems show ?case
    unfolding p
    by (auto split: sum.splits prod.splits if_splits option.splits dest!: Cons.IH ext_frame)
qed

section \<open>The stages of an epoch\<close>

lemma run_epoch_cases:
  assumes "run_epoch E X Y learning_rate loss_function s = (r, s')"
  shows
    "(\<exists>e. forward_pass E X s = (Inl e, s') \<and> r = Inl e) \<or>
     (\<exists>fwd s1 e. forward_pass E X s = (Inr fwd, s1) \<and>
        loss_dispatch E fwd Y loss_function s1 = (Inl e, s') \<and> r = Inl e) \<or>
     (\<exists>fwd s1 loss_f s2 e. forward_pass E X s = (Inr fwd, s1) \<and>
        loss_dispatch E fwd Y loss_function s1 = (Inr loss_f, s2) \<and>
        ext LossForward (loss_forward E loss_f) s2 = (Inl e, s') \<and> r = Inl e) \<or>
     (\<exists>fwd s1 loss_f s2 error s3 e. forward_pass E X s = (Inr fwd, s1) \<and>
        loss_dispatch E fwd Y loss_function s1 = (Inr loss_f, s2) \<and>
        ext LossForward (loss_forward E loss_f) s2 = (Inr error, s3) \<and>
        ext LossBackward (loss_backward E loss_f) s3 = (Inl e, s') \<and> r = Inl e) \<or>
     (\<exists>fwd s1 loss_f s2 error s3 gradient s4 rb. forward_pass E X s = (Inr fwd, s1) \<and>
        loss_dispatch E fwd Y loss_function s1 = (Inr loss_f, s2) \<and>
        ext LossForward (loss_forward E loss_f) s2 = (Inr error, s3) \<and>
        ext LossBackward (loss_backward E loss_f) s3 = (Inr gradient, s4) \<and>
        backward_pass E learning_rate gradient (s4\<lparr>loss := loss s4 @ [error]\<rparr>) = (rb, s') \<and>
        r = (case rb of Inl e \<Rightarrow> Inl e | Inr g \<Rightarrow> Inr error))"
proof -
  obtain rf s1 where f: "forward_pass E X s = (rf, s1)"
    by (cases "forward_pass E X s")
  show ?thesis
  proof (cases rf)
    case (Inl e)
    with assms f show ?thesis by (auto simp: run_epoch_def)
  next
    case fwd: (Inr fwd)
    obtain rd s2 where d: "loss_dispatch E fwd Y loss_function s1 = (rd, s2)"
      by (cases "loss_dispatch E fwd Y loss_function s1")
    show ?thesis
    proof (cases rd)
      case (Inl e)
      with assms f fwd d show ?thesis by (auto simp: run_epoch_def)
    next
      case lf: (Inr loss_f)
      obtain rl s3 where l: "ext LossForward (loss_forward E loss_f) s2 = (rl, s3)"
        by (cases "ext LossForward (loss_forward E loss_f) s2")
      show ?thesis
      proof (cases rl)
        case (Inl e)
        with assms f fwd d lf l show ?thesis by (auto simp: run_epoch_def)
      next
        case er: (Inr error)
        obtain rg s4 where g: "ext LossBackward (loss_backward E loss_f) s3 = (rg, s4)"
          by (cases "ext LossBackward (loss_backward E loss_f) s3")
        show ?thesis
        proof (cases rg)
          case (Inl e)
          with assms f fwd d lf l er g show ?thesis by (auto simp: run_epoch_def)
        next
          case gr: (Inr gradient)
          obtain rb s6 where
            b: "backward_pass E learning_rate gradient (s4\<lparr>loss := loss s4 @ [error]\<rparr>) = (rb, s6)"
            by (cases "backward_pass E learning_rate gradient (s4\<lparr>loss := loss s4 @ [error]\<rparr>)")
          with assms f fwd d lf l er g gr
          have "s' = s6 \<and> r = (case rb of Inl e \<Rightarrow> Inl e | Inr g \<Rightarrow> Inr error)"
            by (cases rb) (auto simp: run_epoch_def Let_def)
          with f fwd d lf l er g gr b show ?thesis by simp
        qed
      qed
    qed
  qed
qed



lemma run_epoch_history:
  assumes "run_epoch E X Y learning_rate loss_function s = (r, s')"
  shows "layers s' = layers s \<and> stdout s' = stdout s \<and>
    (case r of Inr error \<Rightarrow> loss s' = loss s @ [error]
     | Inl e \<Rightarrow> loss s' = loss s \<or> (\<exists>error. loss s' = loss s @ [error]))"
  using run_epoch_cases [OF assms]
proof (elim disjE exE conjE)
  fix e
  assume "forward_pass E X s = (Inl e, s')" "r = Inl e"
  then show ?thesis by (simp add: forward_pass_frame)
next
  fix fwd s1 e
  assume "forward_pass E X s = (Inr fwd, s1)"
    "loss_dispatch E fwd Y loss_function s1 = (Inl e, s')" "r = Inl e"
  then show ?thesis
    by (auto dest!: loss_dispatch_frame simp: forward_pass_frame)
next
  fix fwd s1 loss_f s2 e
  assume "forward_pass E X s = (Inr fwd, s1)"
    "loss_dispatch E fwd Y loss_function s1 = (Inr loss_f, s2)"
    "ext LossForward (loss_forward E loss_f) s2 = (Inl e, s')" "r = Inl e"
  then show ?thesis
    by (auto dest!: loss_dispatch_frame ext_frame simp: forward_pass_frame)
next
  fix fwd s1 loss_f s2 error s3 e
  assume "forward_pass E X s = (Inr fwd, s1)"
    "loss_dispatch E fwd Y loss_function s1 = (Inr loss_f, s2)"
    "ext LossForward (loss_forward E loss_f) s2 = (Inr error, s3)"
    "ext LossBackward (loss_backward E loss_f) s3 = (Inl e, s')" "r = Inl e"
  then show ?thesis
    by (auto dest!: loss_dispatch_frame ext_frame simp: forward_pass_frame)
next
  fix fwd s1 loss_f s2 error s3 gradient s4 rb
  assume a: "forward_pass E X s = (Inr fwd, s1)"
    "loss_dispatch E fwd Y loss_function s1 = (Inr loss_f, s2)"
    "ext LossForward (loss_forward E loss_f) s2 = (Inr error, s3)"
    "ext LossBackward (loss_backward E loss_f) s3 = (Inr gradient, s4)"
    and b: "backward_pass E learning_rate gradient (s4\<lparr>loss := loss s4 @ [error]\<rparr>) = (rb, s')"
    and r: "r = (case rb of Inl e \<Rightarrow> Inl e | Inr g \<Rightarrow> Inr error)"
  from a have 4: "layers s4 = layers s" "stdout s4 = stdout s" "loss s4 = loss s"
    by (auto dest!: loss_dispatch_frame ext_frame simp: forward_pass_frame)
  from b have "layers s' = layers s4 \<and> loss s' = loss s4 @ [error] \<and> stdout s' = stdout s4"
    by (auto simp: backward_pass_def dest!: backward_loop_frame)
  with 4 r show ?thesis by (cases rb) simp_all
qed


section \<open>Which layers are optimized\<close>

lemma mock_epoch:
  "run_epoch mock (Num 5) (Num 1) (Num 1) ''MeanSquaredError'' mock_model
     = (Inr (Num 961),
        \<lparr>layers = [MLinear 0, MNeg, MLinear 1], loss = [Num 961],
         heap = [(- 928, 5), (- 617, - 10)], stdout = [],
         calls = [Forward 0 (Num 5), Forward 1 (Num 10), Forward 2 (Num (- 10)),
                  NewLoss ''MeanSquaredError'' (Num (- 30)) (Num 1), LossForward, LossBackward,
                  Backward 2 (Num (- 62)), Optimize 2 (Num 620) (Num (- 62)) (Num 1),
                  Backward 1 (Num (- 186)),
                  Backward 0 (Num 186), Optimize 0 (Num 930) (Num 186) (Num 1)]\<rparr>)"
  by (simp add: run_epoch_def loss_dispatch_def mock_run)




section \<open>The loss history and the progress lines\<close>





lemma train_loop_history:
  "train_loop E X Y learning_rate es loss_function verbose s = (r, s') \<Longrightarrow>
   \<exists>ls more. loss s' = loss s @ ls @ more \<and> length ls + length more \<le> length es \<and>
     (r = Inr () \<longrightarrow> length ls = length es \<and> more = []) \<and>
     stdout s' = stdout s @ (if verbose then filter (\<lambda>(e, l). e mod 50 = 0) (zip es ls) else []) \<and>
     layers s' = layers s"
proof (induction es arbitrary: s)
  case Nil
  then show ?case by simp
next
  case (Cons epoch rest)
  obtain re s1 where e: "run_epoch E X Y learning_rate loss_function s = (re, s1)"
    by (cases "run_epoch E X Y learning_rate loss_function s")
  note h = run_epoch_history [OF e]
  show ?case
  proof (cases re)
    case (Inl x)
    with Cons.prems e have r: "r = Inl x" "s' = s1" by simp_all
    from h Inl obtain more where m: "loss s1 = loss s @ more" "length more \<le> 1"
      by auto
    with r h have "loss s' = loss s @ [] @ more \<and> length ([] :: 'c list) + length more \<le> length (epoch # rest) \<and>
     (r = Inr () \<longrightarrow> length ([] :: 'c list) = length (epoch # rest) \<and> more = []) \<and>
     stdout s' = stdout s @ (if verbose then filter (\<lambda>(e, l). e mod 50 = 0) (zip (epoch # rest) []) else []) \<and>
     layers s' = layers s"
      by simp
    then show ?thesis by blast
  next
    case (Inr l)
    let ?s2 = "if verbose then
               (if epoch mod 50 = 0 then s1\<lparr>stdout := stdout s1 @ [(epoch, l)]\<rparr> else s1)
             else s1"
    from Cons.prems e Inr
    have "train_loop E X Y learning_rate rest loss_function verbose ?s2 = (r, s')"
      by simp
    from Cons.IH [OF this] obtain ls more where
      ih: "loss s' = loss ?s2 @ ls @ more" "length ls + length more \<le> length rest"
      "r = Inr () \<longrightarrow> length ls = length rest \<and> more = []"
      "stdout s' = stdout ?s2 @ (if verbose then filter (\<lambda>(e, l). e mod 50 = 0) (zip rest ls) else [])"
      "layers s' = layers ?s2"
      by blast
    from h Inr have 2: "loss ?s2 = loss s @ [l]" "layers ?s2 = layers s"
      "stdout ?s2 = stdout s @ (if verbose \<and> epoch mod 50 = 0 then [(epoch, l)] else [])"
      by simp_all
    from ih 2 have "loss s' = loss s @ (l # ls) @ more \<and>
     length (l # ls) + length more \<le> length (epoch # rest) \<and>
     (r = Inr () \<longrightarrow> length (l # ls) = length (epoch # rest) \<and> more = []) \<and>
     stdout s' = stdout s @ (if verbose then filter (\<lambda>(e, l). e mod 50 = 0) (zip (epoch # rest) (l # ls)) else []) \<and>
     layers s' = layers s"
      by simp
    then show ?thesis by blast
  qed
qed

lemma map_fst_filter_zip:
  "length xs = length ys \<Longrightarrow>
   map fst (filter (\<lambda>(e, l). P e) (zip xs ys)) = filter P xs"
  by (induction xs ys rule: list_induct2) simp_all

lemma every_fiftieth_of_150: "filter (\<lambda>e. e mod 50 = 0) [0..(150::int) - 1] = [0, 50, 100]"
  by code_simp





text \<open>
  C7: with \<open>verbose=True\<close> the lines printed by \<open>train\<close> are those of the epochs it
  completed whose index is divisible by 50, each with that epoch's loss, and no others;
  when \<open>train\<close> returns they are the lines of all such indices below \<open>epochs\<close>, and for
  \<open>epochs = 150\<close> these are the indices 0, 50 and 100.
\<close>

theorem verbose_every_fiftieth:
  "\<forall>r s'. train E X Y learning_rate epochs loss_function True s = (r, s') \<longrightarrow>
     (\<exists>ls. length ls \<le> nat epochs \<and>
        stdout s' = stdout s @ filter (\<lambda>(e, l). e mod 50 = 0) (zip [0..epochs - 1] ls) \<and>
        (r = Inr () \<longrightarrow>
           loss s' = loss s @ ls \<and>
           map fst (drop (length (stdout s)) (stdout s'))
             = filter (\<lambda>e. e mod 50 = 0) [0..epochs - 1] \<and>
           (epochs = 150 \<longrightarrow>
              map fst (drop (length (stdout s)) (stdout s')) = [0, 50, 100])))"
proof (intro allI impI)
  fix r s'
  assume "train E X Y learning_rate epochs loss_function True s = (r, s')"
  then have "train_loop E X Y learning_rate [0..epochs - 1] loss_function True s = (r, s')"
    by (simp add: train_def)
  from train_loop_history [OF this] obtain ls more where
    h: "loss s' = loss s @ ls @ more" "length ls + length more \<le> length [0..epochs - 1]"
    "r = Inr () \<longrightarrow> length ls = length [0..epochs - 1] \<and> more = []"
    "stdout s' = stdout s @ filter (\<lambda>(e, l). e mod 50 = 0) (zip [0..epochs - 1] ls)"
    by auto
  have len: "length [0..epochs - 1] = nat epochs" by simp
  have 1: "length ls \<le> nat epochs" using h(2) len by simp
  have 2: "loss s' = loss s @ ls" if "r = Inr ()"
    using that h(1,3) by simp
  have 3: "map fst (drop (length (stdout s)) (stdout s'))
             = filter (\<lambda>e. e mod 50 = 0) [0..epochs - 1]" if "r = Inr ()"
  proof -
    from that h(3) have "length [0..epochs - 1] = length ls" by simp
    from map_fst_filter_zip [OF this, of "\<lambda>e. e mod 50 = 0"] h(4)
    show ?thesis by simp
  qed
  have 4: "map fst (drop (length (stdout s)) (stdout s')) = [0, 50, 100]"
    if "r = Inr ()" "epochs = 150"
    using 3 [OF that(1)] that(2) by (simp only: every_fiftieth_of_150)
  from 1 h(4) 2 3 4
  have "length ls \<le> nat epochs \<and>
        stdout s' = stdout s @ filter (\<lambda>(e, l). e mod 50 = 0) (zip [0..epochs - 1] ls) \<and>
        (r = Inr () \<longrightarrow>
           loss s' = loss s @ ls \<and>
           map fst (drop (length (stdout s)) (stdout s'))
             = filter (\<lambda>e. e mod 50 = 0) [0..epochs - 1] \<and>
           (epochs = 150 \<longrightarrow>
              map fst (drop (length (stdout s)) (stdout s')) = [0, 50, 100]))"
    by blast
  then show "\<exists>ls. length ls \<le> nat epochs \<and>
        stdout s' = stdout s @ filter (\<lambda>(e, l). e mod 50 = 0) (zip [0..epochs - 1] ls) \<and>
        (r = Inr () \<longrightarrow>
           loss s' = loss s @ ls \<and>
           map fst (drop (length (stdout s)) (stdout s'))
             = filter (\<lambda>e. e mod 50 = 0) [0..epochs - 1] \<and>
           (epochs = 150 \<longrightarrow>
              map fst (drop (length (stdout s)) (stdout s')) = [0, 50, 100]))"
    by (rule exI)
qed

lemma neg_epoch:
  "layers s = [MNeg] \<Longrightarrow>
   \<exists>s'. run_epoch mock (Num 1) (Num 1) learning_rate ''BinaryCrossEntropy'' s = (Inr (Num 2), s')
      \<and> layers s' = [MNeg]"
  by (simp add: run_epoch_def loss_dispatch_def forward_pass_def backward_pass_def
      enumerate_eq_zip get_layer_def ext_def mock_fields)

lemma neg_train_loop:
  "layers s = [MNeg] \<Longrightarrow>
   fst (train_loop mock (Num 1) (Num 1) learning_rate es ''BinaryCrossEntropy'' verbose s) = Inr ()"
proof (induction es arbitrary: s)
  case Nil
  then show ?case by simp
next
  case (Cons epoch rest)
  from neg_epoch [OF Cons.prems] obtain s1 where
    e: "run_epoch mock (Num 1) (Num 1) learning_rate ''BinaryCrossEntropy'' s = (Inr (Num 2), s1)"
    and l: "layers s1 = [MNeg]"
    by blast
  let ?s2 = "if verbose then
               (if epoch mod 50 = 0 then s1\<lparr>stdout := stdout s1 @ [(epoch, Num 2)]\<rparr> else s1)
             else s1"
  from l have "layers ?s2 = [MNeg]" by simp
  from Cons.IH [OF this] e show ?case by simp
qed

theorem verbose_every_fiftieth_witness:
  "fst (train mock (Num 1) (Num 1) (Num 1) 150 ''BinaryCrossEntropy'' True neg_model) = Inr () \<and>
   map fst (stdout (snd (train mock (Num 1) (Num 1) (Num 1) 150 ''BinaryCrossEntropy'' True
     neg_model))) = [0, 50, 100]"
proof -
  let ?t = "train mock (Num 1) (Num 1) (Num 1) 150 ''BinaryCrossEntropy'' True neg_model"
  have l: "layers neg_model = [MNeg]" "stdout neg_model = []"
    by (simp_all add: mock_run)
  have r: "fst ?t = Inr ()"
    unfolding train_def by (rule neg_train_loop [OF l(1)])
  then have tr: "?t = (Inr (), snd ?t)"
    by (metis prod.collapse)
  note t = verbose_every_fiftieth [of mock "Num 1" "Num 1" "Num 1" 150 "''BinaryCrossEntropy''"
      neg_model, THEN spec, THEN spec, THEN mp, OF tr]
  from t have "map fst (drop (length (stdout neg_model)) (stdout (snd ?t))) = [0, 50, 100]"
    by auto
  then have "map fst (stdout (snd ?t)) = [0, 50, 100]"
    by (simp add: l)
  with r show ?thesis by (intro conjI)
qed

section \<open>An unsupported loss selector\<close>

lemma run_epoch_unsupported:
  assumes "loss_function \<noteq> ''BinaryCrossEntropy''" "loss_function \<noteq> ''MeanSquaredError''"
  shows "run_epoch E X Y learning_rate loss_function s
    = (case forward_pass E X s of
         (Inl e, s1) \<Rightarrow> (Inl e, s1)
       | (Inr fwd, s1) \<Rightarrow> (Inl (ValueError (loss_function @ '' is not supported.'')), s1))"
proof -
  obtain rf s1 where f: "forward_pass E X s = (rf, s1)"
    by (cases "forward_pass E X s")
  show ?thesis
  proof (cases rf)
    case (Inl e)
    with f show ?thesis by (simp add: run_epoch_def)
  next
    case (Inr fwd)
    with f show ?thesis
      by (simp add: run_epoch_def dispatch_other [OF assms])
  qed
qed

lemma compose_forward_preserves:
  "(\<forall>L x h. params (snd (layer_forward E L x h)) = params h) \<Longrightarrow>
   params (snd (compose_forward E ls X h)) = params h"
proof (induction ls arbitrary: X h)
  case Nil
  then show ?case by simp
next
  case (Cons L ls)
  obtain r h1 where f: "layer_forward E L X h = (r, h1)"
    by (cases "layer_forward E L X h")
  from Cons.prems have p: "params (snd (layer_forward E L X h)) = params h" by blast
  with f have h1: "params h1 = params h" by simp
  show ?case
  proof (cases r)
    case (Inl x)
    with f h1 show ?thesis by simp
  next
    case (Inr out)
    with f h1 Cons.IH [OF Cons.prems, of out h1] show ?thesis by simp
  qed
qed

lemma train_first_epoch:
  assumes "1 \<le> epochs"
  shows "train E X Y learning_rate epochs loss_function verbose s
    = train_loop E X Y learning_rate (0 # [1..epochs - 1]) loss_function verbose s"
proof -
  from assms have "[0..epochs - 1] = 0 # [1..epochs - 1]"
    by (simp add: upto_rec1)
  then show ?thesis by (simp add: train_def)
qed

text \<open>
  C3, as the code has it: with a selector outside the supported set, \<open>train\<close> called
  with \<open>epochs \<le> 0\<close> raises nothing and leaves the state as it was; called with
  \<open>epochs \<ge> 1\<close> it runs the forward pass of the first epoch and stops there: if a layer
  raised, with that exception, otherwise with the unsupported-configuration error naming
  the selector. The only calls made are \<open>forward\<close> calls on the layers, in order; no loss
  unit is built and no \<open>backward\<close> or \<open>optimize\<close> runs; the layer list, the loss history
  and the output are unchanged, and the collaborators are in the state the forward pass
  left them in, so whatever no \<open>forward\<close> changes (the parameters, for layers that only
  cache their input) is unchanged.
\<close>

theorem unsupported_selector_first_epoch:
  assumes "loss_function \<noteq> ''BinaryCrossEntropy''" "loss_function \<noteq> ''MeanSquaredError''"
  shows "(epochs \<le> 0 \<longrightarrow>
      train E X Y learning_rate epochs loss_function verbose s = (Inr (), s)) \<and>
   (1 \<le> epochs \<longrightarrow>
     (\<exists>r s'. train E X Y learning_rate epochs loss_function verbose s = (r, s') \<and>
       (\<forall>e. fst (forward_pass E X s) = Inl e \<longrightarrow> r = Inl e) \<and>
       ((\<exists>fwd. fst (forward_pass E X s) = Inr fwd) \<longrightarrow>
         r = Inl (ValueError (loss_function @ '' is not supported.''))) \<and>
       ((\<exists>x. r = Inl (Raised x)) \<or>
         r = Inl (ValueError (loss_function @ '' is not supported.''))) \<and>
       s' = snd (forward_pass E X s) \<and>
       layers s' = layers s \<and> loss s' = loss s \<and> stdout s' = stdout s \<and>
       heap s' = snd (compose_forward E (layers s) X (heap s)) \<and>
       (\<exists>cs. calls s' = calls s @ cs \<and> length cs \<le> length (layers s) \<and>
          map shape cs = map (\<lambda>i. Forward i ()) [0..<length cs]) \<and>
       ((\<forall>L x h. params (snd (layer_forward E L x h)) = params h) \<longrightarrow>
          params (heap s') = params (heap s))))"
proof (intro conjI impI)
  assume "epochs \<le> 0"
  then show "train E X Y learning_rate epochs loss_function verbose s = (Inr (), s)"
    by (simp add: train_def)
next
  assume pos: "1 \<le> epochs"
  obtain rf s1 where f: "forward_pass E X s = (rf, s1)"
    by (cases "forward_pass E X s")
  define r where "r = fst (train E X Y learning_rate epochs loss_function verbose s)"
  have tc: "train E X Y learning_rate epochs loss_function verbose s
      = (case rf of Inl e \<Rightarrow> Inl e
         | Inr fwd \<Rightarrow> Inl (ValueError (loss_function @ '' is not supported.'')), s1)"
    unfolding train_first_epoch [OF pos] train_loop.simps
      run_epoch_unsupported [OF assms] f
    by (cases rf) simp_all
  then have rc: "r = (case rf of Inl e \<Rightarrow> Inl e
         | Inr fwd \<Rightarrow> Inl (ValueError (loss_function @ '' is not supported.'')))"
    by (simp add: r_def)
  from tc rc have t: "train E X Y learning_rate epochs loss_function verbose s = (r, s1)"
    by simp
  have 0: "\<forall>e. fst (forward_pass E X s) = Inl e \<longrightarrow> r = Inl e"
    using f by (auto simp: rc)
  have 1: "(\<exists>x. r = Inl (Raised x)) \<or>
      r = Inl (ValueError (loss_function @ '' is not supported.''))"
    using forward_pass_result [OF f] by (auto simp: rc)
  have 2: "(\<exists>fwd. fst (forward_pass E X s) = Inr fwd) \<longrightarrow>
      r = Inl (ValueError (loss_function @ '' is not supported.''))"
    using f by (auto simp: rc)
  note fr = forward_pass_frame [OF f]
  from fr(5) have 3: "\<exists>cs. calls s1 = calls s @ cs \<and> length cs \<le> length (layers s) \<and>
        map shape cs = map (\<lambda>i. Forward i ()) [0..<length cs]"
    by blast
  have 4: "(\<forall>L x h. params (snd (layer_forward E L x h)) = params h) \<longrightarrow>
        params (heap s1) = params (heap s)"
    unfolding fr(4) by (rule impI) (rule compose_forward_preserves)
  have 5: "s1 = snd (forward_pass E X s)" using f by simp
  from t 0 2 1 5 fr(1,2,3,4) 3 4
  have "train E X Y learning_rate epochs loss_function verbose s = (r, s1) \<and>
       (\<forall>e. fst (forward_pass E X s) = Inl e \<longrightarrow> r = Inl e) \<and>
       ((\<exists>fwd. fst (forward_pass E X s) = Inr fwd) \<longrightarrow>
         r = Inl (ValueError (loss_function @ '' is not supported.''))) \<and>
       ((\<exists>x. r = Inl (Raised x)) \<or>
         r = Inl (ValueError (loss_function @ '' is not supported.''))) \<and>
       s1 = snd (forward_pass E X s) \<and>
       layers s1 = layers s \<and> loss s1 = loss s \<and> stdout s1 = stdout s \<and>
       heap s1 = snd (compose_forward E (layers s) X (heap s)) \<and>
       (\<exists>cs. calls s1 = calls s @ cs \<and> length cs \<le> length (layers s) \<and>
          map shape cs = map (\<lambda>i. Forward i ()) [0..<length cs]) \<and>
       ((\<forall>L x h. params (snd (layer_forward E L x h)) = params h) \<longrightarrow>
          params (heap s1) = params (heap s))"
    by (intro conjI)
  then show "\<exists>r s'. train E X Y learning_rate epochs loss_function verbose s = (r, s') \<and>
       (\<forall>e. fst (forward_pass E X s) = Inl e \<longrightarrow> r = Inl e) \<and>
       ((\<exists>fwd. fst (forward_pass E X s) = Inr fwd) \<longrightarrow>
         r = Inl (ValueError (loss_function @ '' is not supported.''))) \<and>
       ((\<exists>x. r = Inl (Raised x)) \<or>
         r = Inl (ValueError (loss_function @ '' is not supported.''))) \<and>
       s' = snd (forward_pass E X s) \<and>
       layers s' = layers s \<and> loss s' = loss s \<and> stdout s' = stdout s \<and>
       heap s' = snd (compose_forward E (layers s) X (heap s)) \<and>
       (\<exists>cs. calls s' = calls s @ cs \<and> length cs \<le> length (layers s) \<and>
          map shape cs = map (\<lambda>i. Forward i ()) [0..<length cs]) \<and>
       ((\<forall>L x h. params (snd (layer_forward E L x h)) = params h) \<longrightarrow>
          params (heap s') = params (heap s))"
    by (intro exI)
qed

lemma mock_forward_params: "map fst (snd (mock_forward L x h)) = map fst h"
proof (cases x)
  case (Num n)
  show ?thesis
  proof (cases L)
    case (MLinear k)
    with Num show ?thesis
      by (simp add: map_update list_update_same_conv)
  next
    case MNeg
    with Num show ?thesis by simp
  qed
next
  case (Tuple3 a b c)
  then show ?thesis by simp
qed

theorem unsupported_selector_first_epoch_witness:
  "''Hinge'' \<noteq> ''BinaryCrossEntropy'' \<and> ''Hinge'' \<noteq> ''MeanSquaredError'' \<and>
   (0::int) \<le> 0 \<and> (1::int) \<le> 1 \<and>
   train mock (Num 1) (Num 1) (Num 1) 0 ''Hinge'' True mock_model = (Inr (), mock_model) \<and>
   fst (train mock (Num 1) (Num 1) (Num 1) 1 ''Hinge'' True mock_model)
     = Inl (ValueError ''Hinge is not supported.'') \<and>
   loss (snd (train mock (Num 1) (Num 1) (Num 1) 1 ''Hinge'' True mock_model)) = loss mock_model \<and>
   map fst (heap (snd (train mock (Num 1) (Num 1) (Num 1) 1 ''Hinge'' True mock_model)))
     = map fst (heap mock_model) \<and>
   fst (train mock (Tuple3 (Num 1) (Num 1) (Num 1)) (Num 1) (Num 1) 1 ''Hinge'' True mock_model)
     = Inl (Raised ''TypeError'')"
proof -
  let ?t = "train mock (Num 1) (Num 1) (Num 1) 1 ''Hinge'' True mock_model"
  let ?u = "train mock (Tuple3 (Num 1) (Num 1) (Num 1)) (Num 1) (Num 1) 1 ''Hinge'' True mock_model"
  have h: "''Hinge'' \<noteq> ''BinaryCrossEntropy''" "''Hinge'' \<noteq> ''MeanSquaredError''"
    by simp_all
  have z: "(0::int) \<le> 0" and o: "(1::int) \<le> 1" by simp_all
  have f: "\<exists>fwd. fst (forward_pass mock (Num 1) mock_model) = Inr fwd"
    by (simp add: mock_run)
  have g: "fst (forward_pass mock (Tuple3 (Num 1) (Num 1) (Num 1)) mock_model)
      = Inl (Raised ''TypeError'')"
    by (simp add: mock_run)
  have p: "\<forall>L x h. map fst (snd (layer_forward mock L x h)) = map fst h"
    by (simp add: mock_fields mock_forward_params)
  have a: "''Hinge'' @ '' is not supported.'' = ''Hinge is not supported.''"
    by simp
  note t0 = unsupported_selector_first_epoch [OF h, where epochs = 0 and E = mock
      and X = "Num 1" and Y = "Num 1" and learning_rate = "Num 1" and verbose = True
      and s = mock_model and params = "map fst", THEN conjunct1, THEN mp, OF z]
  note t1 = unsupported_selector_first_epoch [OF h, where epochs = 1 and E = mock
      and X = "Num 1" and Y = "Num 1" and learning_rate = "Num 1" and verbose = True
      and s = mock_model and params = "map fst", THEN conjunct2, THEN mp, OF o]
  note t2 = unsupported_selector_first_epoch [OF h, where epochs = 1 and E = mock
      and X = "Tuple3 (Num 1) (Num 1) (Num 1)" and Y = "Num 1" and learning_rate = "Num 1"
      and verbose = True and s = mock_model and params = "map fst",
      THEN conjunct2, THEN mp, OF o]
  from t1 obtain r s' where t: "?t = (r, s')"
    and v: "(\<exists>fwd. fst (forward_pass mock (Num 1) mock_model) = Inr fwd) \<longrightarrow>
       r = Inl (ValueError (''Hinge'' @ '' is not supported.''))"
    and l: "loss s' = loss mock_model"
    and q: "(\<forall>L x h. map fst (snd (layer_forward mock L x h)) = map fst h) \<longrightarrow>
        map fst (heap s') = map fst (heap mock_model)"
    by (elim exE conjE)
  from t2 obtain r2 s2 where u: "?u = (r2, s2)"
    and w: "\<forall>e. fst (forward_pass mock (Tuple3 (Num 1) (Num 1) (Num 1)) mock_model) = Inl e
       \<longrightarrow> r2 = Inl e"
    by (elim exE conjE)
  from v f have 1: "fst ?t = Inl (ValueError ''Hinge is not supported.'')"
    unfolding t fst_conv a by (rule mp)
  from l have 2: "loss (snd ?t) = loss mock_model"
    unfolding t snd_conv .
  from q p have 3: "map fst (heap (snd ?t)) = map fst (heap mock_model)"
    unfolding t snd_conv by (rule mp)
  from w [THEN spec, THEN mp, OF g] have 4: "fst ?u = Inl (Raised ''TypeError'')"
    unfolding u fst_conv .
  from h z o t0 1 2 3 4 show ?thesis by (intro conjI)
qed

text \<open>
  C3 as it is stated fails: with \<open>epochs = 0\<close> nothing is raised; with \<open>epochs = 1\<close> the
  error comes after the three layers have run forward and cached their inputs; and when
  a layer raises in that forward pass the error is the layer's.
\<close>

theorem unsupported_selector_counterexample:
  "fst (train mock (Num 1) (Num 1) (Num 1) 0 ''Hinge'' False mock_model) = Inr () \<and>
   train mock (Num 1) (Num 1) (Num 1) 1 ''Hinge'' False mock_model
     = (Inl (ValueError ''Hinge is not supported.''),
        mock_model\<lparr>heap := [(2, 1), (3, - 2)],
                    calls := [Forward 0 (Num 1), Forward 1 (Num 2), Forward 2 (Num (- 2))]\<rparr>) \<and>
   heap mock_model = [(2, 0), (3, 0)] \<and>
   fst (train mock (Tuple3 (Num 1) (Num 1) (Num 1)) (Num 1) (Num 1) 1 ''Hinge'' False mock_model)
     = Inl (Raised ''TypeError'')"
proof (intro conjI)
  show "fst (train mock (Num 1) (Num 1) (Num 1) 0 ''Hinge'' False mock_model) = Inr ()"
    by (simp add: train_def)
  show "train mock (Num 1) (Num 1) (Num 1) 1 ''Hinge'' False mock_model
     = (Inl (ValueError ''Hinge is not supported.''),
        mock_model\<lparr>heap := [(2, 1), (3, - 2)],
                    calls := [Forward 0 (Num 1), Forward 1 (Num 2), Forward 2 (Num (- 2))]\<rparr>)"
    by (simp add: train_def run_epoch_def loss_dispatch_def mock_run)
  show "heap mock_model = [(2, 0), (3, 0)]"
    by (simp add: mock_run)
  show "fst (train mock (Tuple3 (Num 1) (Num 1) (Num 1)) (Num 1) (Num 1) 1 ''Hinge'' False mock_model)
     = Inl (Raised ''TypeError'')"
    by (simp add: train_def run_epoch_def loss_dispatch_def mock_run)
qed

section \<open>Determinism\<close>

lemma same_effects_refl: "agree s t \<Longrightarrow> same_effects s s t t"
  by (simp add: same_effects_def)

lemma same_effects_trans:
  assumes "same_effects s s1 t t1" "same_effects s1 s2 t1 t2"
  shows "same_effects s s2 t t2"
proof -
  from assms obtain cs es ps cs' es' ps' where
    1: "calls s1 = calls s @ cs" "calls t1 = calls t @ cs"
    "loss s1 = loss s @ es" "loss t1 = loss t @ es"
    "stdout s1 = stdout s @ ps" "stdout t1 = stdout t @ ps"
    and 2: "calls s2 = calls s1 @ cs'" "calls t2 = calls t1 @ cs'"
    "loss s2 = loss s1 @ es'" "loss t2 = loss t1 @ es'"
    "stdout s2 = stdout s1 @ ps'" "stdout t2 = stdout t1 @ ps'"
    and a: "agree s2 t2"
    unfolding same_effects_def by blast
  from 1 2 have "calls s2 = calls s @ (cs @ cs') \<and> calls t2 = calls t @ (cs @ cs')"
    "loss s2 = loss s @ (es @ es') \<and> loss t2 = loss t @ (es @ es')"
    "stdout s2 = stdout s @ (ps @ ps') \<and> stdout t2 = stdout t @ (ps @ ps')"
    by simp_all
  with a show ?thesis unfolding same_effects_def by blast
qed

lemma ext_same:
  assumes "agree s t"
  shows "fst (ext c f s) = fst (ext c f t) \<and> same_effects s (snd (ext c f s)) t (snd (ext c f t))"
proof -
  from assms have h: "heap s = heap t" and l: "layers s = layers t"
    by (simp_all add: agree_def)
  obtain r h1 where f: "f (heap t) = (r, h1)" by (cases "f (heap t)")
  show ?thesis
    using f h l by (cases r) (simp_all add: ext_def same_effects_def agree_def)
qed

lemma ext_same_run:
  assumes "agree s t" "ext c f s = (r, s1)" "ext c f t = (r', t1)"
  shows "r = r' \<and> same_effects s s1 t t1 \<and> agree s1 t1"
  using ext_same [OF assms(1), of c f] assms(2,3)
  by (simp add: same_effects_def)

lemma forward_loop_same:
  "agree s t \<Longrightarrow>
   fst (forward_loop E ps X fwd s) = fst (forward_loop E ps X fwd t) \<and>
   same_effects s (snd (forward_loop E ps X fwd s)) t (snd (forward_loop E ps X fwd t))"
proof (induction ps arbitrary: X fwd s t)
  case Nil
  then show ?case by (simp add: same_effects_refl)
next
  case (Cons p ps)
  obtain i l where p: "p = (i, l)" by (cases p)
  from Cons.prems have ls: "layers s = layers t" by (simp add: agree_def)
  show ?case
  proof (cases "i < length (layers s)")
    case False
    with ls Cons.prems show ?thesis
      by (simp add: p get_layer_def same_effects_refl)
  next
    case True
    let ?L = "layers s ! i"
    obtain r s1 where es: "ext (Forward i X) (layer_forward E ?L X) s = (r, s1)"
      by (cases "ext (Forward i X) (layer_forward E ?L X) s")
    obtain r' t1 where et: "ext (Forward i X) (layer_forward E ?L X) t = (r', t1)"
      by (cases "ext (Forward i X) (layer_forward E ?L X) t")
    from ext_same_run [OF Cons.prems es et]
    have r: "r' = r" and se: "same_effects s s1 t t1" and a: "agree s1 t1"
      by simp_all
    show ?thesis
    proof (cases r)
      case (Inl e)
      with True ls es et r se show ?thesis
        by (simp add: p get_layer_def)
    next
      case (Inr out)
      from Cons.IH [OF a, of out "Some out"] se
      have "fst (forward_loop E ps out (Some out) s1) = fst (forward_loop E ps out (Some out) t1) \<and>
        same_effects s (snd (forward_loop E ps out (Some out) s1))
          t (snd (forward_loop E ps out (Some out) t1))"
        by (auto intro: same_effects_trans)
      with Inr True ls es et r show ?thesis
        by (simp add: p get_layer_def)
    qed
  qed
qed

lemma loss_dispatch_same:
  assumes "agree s t"
  shows "fst (loss_dispatch E fwd Y loss_function s) = fst (loss_dispatch E fwd Y loss_function t) \<and>
   same_effects s (snd (loss_dispatch E fwd Y loss_function s))
     t (snd (loss_dispatch E fwd Y loss_function t))"
proof (cases "loss_function = ''BinaryCrossEntropy'' \<or> loss_function = ''MeanSquaredError''")
  case False
  then have "loss_function \<noteq> ''BinaryCrossEntropy''" "loss_function \<noteq> ''MeanSquaredError''"
    by simp_all
  then show ?thesis
    using assms by (simp add: dispatch_other same_effects_refl)
next
  case True
  show ?thesis
  proof (cases fwd)
    case None
    with True assms show ?thesis
      by (simp add: dispatch_unbound same_effects_refl)
  next
    case (Some out)
    from True show ?thesis
    proof
      assume "loss_function = ''BinaryCrossEntropy''"
      with Some show ?thesis
        by (simp only: dispatch_bce ext_same [OF assms])
    next
      assume "loss_function = ''MeanSquaredError''"
      with Some show ?thesis
        by (simp only: dispatch_mse ext_same [OF assms])
    qed
  qed
qed


lemma same_run:
  assumes "fst (f s) = fst (f t) \<and> same_effects s (snd (f s)) t (snd (f t))"
    and "f s = (r, s1)" "f t = (r', t1)"
  shows "r' = r" "same_effects s s1 t t1" "agree s1 t1"
  using assms by (simp_all add: same_effects_def)

lemma backward_loop_same:
  "agree s t \<Longrightarrow>
   fst (backward_loop E learning_rate ps gradient s)
     = fst (backward_loop E learning_rate ps gradient t) \<and>
   same_effects s (snd (backward_loop E learning_rate ps gradient s))
     t (snd (backward_loop E learning_rate ps gradient t))"
proof (induction ps arbitrary: gradient s t)
  case Nil
  then show ?case by (simp add: same_effects_refl)
next
  case (Cons p ps)
  obtain i l where p: "p = (i, l)" by (cases p)
  from Cons.prems have ls: "layers t = layers s" by (simp add: agree_def)
  show ?case
  proof (cases "i < length (layers s)")
    case False
    with ls Cons.prems show ?thesis
      by (simp add: p get_layer_def same_effects_refl)
  next
    case True
    then have Tt: "i < length (layers t)" using ls by simp
    let ?L = "layers s ! i"
    note step = backward_loop_step [OF True, of E learning_rate l ps gradient]
      backward_loop_step [OF Tt, of E learning_rate l ps gradient, unfolded ls]
    obtain r s1 where es: "ext (Backward i gradient) (layer_backward E ?L gradient) s = (r, s1)"
      by (cases "ext (Backward i gradient) (layer_backward E ?L gradient) s")
    obtain r' t1 where et: "ext (Backward i gradient) (layer_backward E ?L gradient) t = (r', t1)"
      by (cases "ext (Backward i gradient) (layer_backward E ?L gradient) t")
    from ext_same_run [OF Cons.prems es et]
    have r: "r' = r" and se: "same_effects s s1 t t1" and a: "agree s1 t1"
      by simp_all
    have cont: "fst (backward_loop E learning_rate ps g u) = fst (backward_loop E learning_rate ps g v) \<and>
        same_effects s (snd (backward_loop E learning_rate ps g u))
          t (snd (backward_loop E learning_rate ps g v))"
      if "same_effects s u t v" for g u v
    proof -
      from that have "agree u v" by (simp add: same_effects_def)
      from Cons.IH [OF this, of g] that show ?thesis
        by (auto intro: same_effects_trans)
    qed
    show ?thesis
    proof (cases r)
      case (Inl e)
      with es et r se show ?thesis
        unfolding p step by simp
    next
      case (Inr res)
      show ?thesis
      proof (cases "layer_type E ?L = ''Linear''")
        case False
        with Inr es et r cont [OF se, of res] show ?thesis
          unfolding p step by simp
      next
        case True
        show ?thesis
        proof (cases "unpack3 E res")
          case None
          with True Inr es et r se show ?thesis
            unfolding p step by simp
        next
          case (Some tr)
          obtain g dW dB where tr: "tr = (g, dW, dB)" by (cases tr)
          obtain ro s2 where
            os: "ext (Optimize i dW dB learning_rate) (layer_optimize E ?L dW dB learning_rate) s1
                  = (ro, s2)"
            by (cases "ext (Optimize i dW dB learning_rate)
                         (layer_optimize E ?L dW dB learning_rate) s1")
          obtain ro' t2 where
            ot: "ext (Optimize i dW dB learning_rate) (layer_optimize E ?L dW dB learning_rate) t1
                  = (ro', t2)"
            by (cases "ext (Optimize i dW dB learning_rate)
                         (layer_optimize E ?L dW dB learning_rate) t1")
          from ext_same_run [OF a os ot]
          have ro: "ro' = ro" and se2: "same_effects s1 s2 t1 t2" by simp_all
          note se12 = same_effects_trans [OF se se2]
          show ?thesis
          proof (cases ro)
            case (Inl e)
            with True Inr Some tr es et r os ot ro se12 show ?thesis
              unfolding p step by simp
          next
            case Inr2: (Inr u)
            with True Inr Some tr es et r os ot ro cont [OF se12, of g] show ?thesis
              unfolding p step by simp
          qed
        qed
      qed
    qed
  qed
qed


lemma forward_pass_same:
  "agree s t \<Longrightarrow>
   fst (forward_pass E X s) = fst (forward_pass E X t) \<and>
   same_effects s (snd (forward_pass E X s)) t (snd (forward_pass E X t))"
  using forward_loop_same [of s t E "enumerate 0 (layers s)" X None]
  by (simp add: forward_pass_def agree_def)

lemma backward_pass_same:
  "agree s t \<Longrightarrow>
   fst (backward_pass E learning_rate gradient s) = fst (backward_pass E learning_rate gradient t) \<and>
   same_effects s (snd (backward_pass E learning_rate gradient s))
     t (snd (backward_pass E learning_rate gradient t))"
  using backward_loop_same [of s t E learning_rate "rev (enumerate 0 (layers s))" gradient]
  by (simp add: backward_pass_def agree_def)

lemma run_epoch_same:
  assumes "agree s t"
  shows "fst (run_epoch E X Y learning_rate loss_function s)
           = fst (run_epoch E X Y learning_rate loss_function t) \<and>
         same_effects s (snd (run_epoch E X Y learning_rate loss_function s))
           t (snd (run_epoch E X Y learning_rate loss_function t))"
proof -
  obtain rf s1 where fs: "forward_pass E X s = (rf, s1)" by (cases "forward_pass E X s")
  obtain rf' t1 where ft: "forward_pass E X t = (rf', t1)" by (cases "forward_pass E X t")
  note 1 = same_run [OF forward_pass_same [OF assms] fs ft]
  show ?thesis
  proof (cases rf)
    case (Inl e)
    with fs ft 1 show ?thesis by (simp add: run_epoch_def)
  next
    case fwd: (Inr fwd)
    obtain rd s2 where ds: "loss_dispatch E fwd Y loss_function s1 = (rd, s2)"
      by (cases "loss_dispatch E fwd Y loss_function s1")
    obtain rd' t2 where dt: "loss_dispatch E fwd Y loss_function t1 = (rd', t2)"
      by (cases "loss_dispatch E fwd Y loss_function t1")
    note 2 = same_run [OF loss_dispatch_same [OF 1(3)] ds dt]
    note se2 = same_effects_trans [OF 1(2) 2(2)]
    show ?thesis
    proof (cases rd)
      case (Inl e)
      with fs ft 1 fwd ds dt 2 se2 show ?thesis by (simp add: run_epoch_def)
    next
      case lf: (Inr loss_f)
      obtain rl s3 where ls: "ext LossForward (loss_forward E loss_f) s2 = (rl, s3)"
        by (cases "ext LossForward (loss_forward E loss_f) s2")
      obtain rl' t3 where lt: "ext LossForward (loss_forward E loss_f) t2 = (rl', t3)"
        by (cases "ext LossForward (loss_forward E loss_f) t2")
      note 3 = same_run [OF ext_same [OF 2(3)] ls lt]
      note se3 = same_effects_trans [OF se2 3(2)]
      show ?thesis
      proof (cases rl)
        case (Inl e)
        with fs ft 1 fwd ds dt 2 lf ls lt 3 se3 show ?thesis by (simp add: run_epoch_def)
      next
        case er: (Inr error)
        obtain rg s4 where gs: "ext LossBackward (loss_backward E loss_f) s3 = (rg, s4)"
          by (cases "ext LossBackward (loss_backward E loss_f) s3")
        obtain rg' t4 where gt: "ext LossBackward (loss_backward E loss_f) t3 = (rg', t4)"
          by (cases "ext LossBackward (loss_backward E loss_f) t3")
        note 4 = same_run [OF ext_same [OF 3(3)] gs gt]
        note se4 = same_effects_trans [OF se3 4(2)]
        show ?thesis
        proof (cases rg)
          case (Inl e)
          with fs ft 1 fwd ds dt 2 lf ls lt 3 er gs gt 4 se4 show ?thesis
            by (simp add: run_epoch_def)
        next
          case gr: (Inr gradient)
          let ?s5 = "s4\<lparr>loss := loss s4 @ [error]\<rparr>"
          let ?t5 = "t4\<lparr>loss := loss t4 @ [error]\<rparr>"
          from 4(3) have "same_effects s4 ?s5 t4 ?t5"
            by (simp add: same_effects_def agree_def)
          note se5 = same_effects_trans [OF se4 this]
          then have a5: "agree ?s5 ?t5" by (simp add: same_effects_def)
          obtain rb s6 where bs: "backward_pass E learning_rate gradient ?s5 = (rb, s6)"
            by (cases "backward_pass E learning_rate gradient ?s5")
          obtain rb' t6 where bt: "backward_pass E learning_rate gradient ?t5 = (rb', t6)"
            by (cases "backward_pass E learning_rate gradient ?t5")
          note 6 = same_run [OF backward_pass_same [OF a5] bs bt]
          note se6 = same_effects_trans [OF se5 6(2)]
          from fs ft 1 fwd ds dt 2 lf ls lt 3 er gs gt 4 gr bs bt 6 se6 show ?thesis
            by (cases rb) (simp_all add: run_epoch_def)
        qed
      qed
    qed
  qed
qed

text \<open>
  C6: the epoch routine is deterministic. Two runs with the same \<open>X\<close>, \<open>Y\<close>, learning
  rate and selector, from states that hold the same layers with the same parameters,
  return the same scalar error (or raise the same exception), make the same calls with
  the same arguments (so the same parameter updates), append the same loss, and leave
  the layers with the same parameters, whatever was recorded before either run.
\<close>

theorem run_epoch_deterministic:
  assumes "agree s t"
  shows "fst (run_epoch E X Y learning_rate loss_function s)
           = fst (run_epoch E X Y learning_rate loss_function t) \<and>
         heap (snd (run_epoch E X Y learning_rate loss_function s))
           = heap (snd (run_epoch E X Y learning_rate loss_function t)) \<and>
         same_effects s (snd (run_epoch E X Y learning_rate loss_function s))
           t (snd (run_epoch E X Y learning_rate loss_function t))"
  using run_epoch_same [OF assms, of E X Y learning_rate loss_function]
  by (simp add: same_effects_def agree_def)

theorem run_epoch_deterministic_witness:
  "agree mock_model (mock_model\<lparr>loss := [Num 7], stdout := [(3, Num 7)], calls := [LossForward]\<rparr>) \<and>
   fst (run_epoch mock (Num 5) (Num 1) (Num 1) ''MeanSquaredError''
          (mock_model\<lparr>loss := [Num 7], stdout := [(3, Num 7)], calls := [LossForward]\<rparr>))
     = Inr (Num 961) \<and>
   heap (snd (run_epoch mock (Num 5) (Num 1) (Num 1) ''MeanSquaredError''
          (mock_model\<lparr>loss := [Num 7], stdout := [(3, Num 7)], calls := [LossForward]\<rparr>)))
     = [(- 928, 5), (- 617, - 10)]"
proof -
  let ?t = "mock_model\<lparr>loss := [Num 7], stdout := [(3, Num 7)], calls := [LossForward]\<rparr>"
  have a: "agree mock_model ?t" by (simp add: agree_def)
  note d = run_epoch_deterministic [OF a, of mock "Num 5" "Num 1" "Num 1" "''MeanSquaredError''"]
  from d [THEN conjunct1]
  have 1: "fst (run_epoch mock (Num 5) (Num 1) (Num 1) ''MeanSquaredError'' ?t) = Inr (Num 961)"
    unfolding mock_epoch fst_conv by (rule sym)
  from d [THEN conjunct2, THEN conjunct1]
  have 2: "heap (snd (run_epoch mock (Num 5) (Num 1) (Num 1) ''MeanSquaredError'' ?t))
     = [(- 928, 5), (- 617, - 10)]"
    unfolding mock_epoch snd_conv by simp
  from a 1 2 show ?thesis by (intro conjI)
qed

end
